theory Spec2Isabelle
  imports Main "HOL-Library.Word"
begin

section \<open>The usbcat device: a flow-controlled pipe between stdin/stdout and two bulk endpoints\<close>

text \<open>
  The development embeds \<^verbatim>\<open>examples/usbcat/device.py\<close>: the two endpoint adapters
  (\<^verbatim>\<open>EndpointOUTFile\<close>, \<^verbatim>\<open>EndpointINFile\<close>), the lifecycle callbacks of
  \<^verbatim>\<open>USBCat\<close>, and the callbacks and the event loop of \<^verbatim>\<open>SubprocessCat\<close>.

  Python objects are shared and mutated in place; the model threads one state through every
  call. An exception is a value: a call either returns (\<open>Ok\<close>) or raises (\<open>Exc\<close>), and in
  both cases yields the state as the mutations made so far left it.
\<close>

subsection \<open>Values, exceptions, results\<close>

type_synonym byte = "8 word"

text \<open>A \<^verbatim>\<open>bytes\<close>, \<^verbatim>\<open>bytearray\<close> or \<^verbatim>\<open>memoryview\<close> content.\<close>
type_synonym bytes = "byte list"

text \<open>A Python 3 \<^verbatim>\<open>str\<close>: a sequence of code points.\<close>
type_synonym unicode = "nat list"

text \<open>The list of buffers of one transfer, as \<^verbatim>\<open>submit\<close> takes and \<^verbatim>\<open>onComplete\<close> returns it.\<close>
type_synonym buffer_list = "bytes list"

text \<open>\<^verbatim>\<open>user_data\<close> is never given by this program, so it is always \<^verbatim>\<open>None\<close>.\<close>
type_synonym user_data = unit

text \<open>What \<^verbatim>\<open>sys.stdin.read\<close> may return and what \<^verbatim>\<open>sys.stdout.write\<close> is given.\<close>
datatype pyvalue = PyNone | PyBytes bytes | PyStr unicode

text \<open>The exceptions the program raises, catches or lets through; \<open>OSError\<close> carries its errno.\<close>
datatype exn = EOFError | KeyboardInterrupt | OSError int

datatype ('a, 's) res = Ok 'a 's | Exc exn 's

text \<open>The constants of the \<^verbatim>\<open>errno\<close> module the program names, with their Linux values.\<close>
definition ENOENT :: int where "ENOENT = 2"
definition EINTR :: int where "EINTR = 4"
definition EEXIST :: int where "EEXIST = 17"
definition ESHUTDOWN :: int where "ESHUTDOWN = 108"

subsection \<open>The state\<close>

text \<open>The two descriptors the event loop waits on: local input and the function's event descriptor.\<close>
datatype fd = Stdin | Eventfd

text \<open>One line of \<^verbatim>\<open>trace(...)\<close>, which prints to \<^verbatim>\<open>sys.stderr\<close>.\<close>
datatype trace_msg =
    AioReadCompletionError int
  | AioReadCompletionReceived nat
  | AioWriteCompletionError int
  | AioWriteCompletionSent int
  | SendQueueHasRoom
  | SendQueueFull
  | TraceOnBind | TraceOnUnbind | TraceOnEnable | TraceOnDisable | TraceOnSuspend | TraceOnResume
  | Queuing nat
  | EpollEvent fd nat

text \<open>
  \<open>stranded\<close> is \<^verbatim>\<open>EndpointINFile.__stranded_buffer_list_queue\<close> (a deque, oldest first),
  \<open>stderr\<close> what \<^verbatim>\<open>trace\<close> printed, \<open>submitted\<close> the buffer lists the IN endpoint accepted for
  transfer, oldest first. \<open>world\<close> is everything the callbacks given to the adapters act on:
  the adapters are constructed with their callbacks (\<^verbatim>\<open>writer\<close>, \<^verbatim>\<open>onCanSend\<close>,
  \<^verbatim>\<open>onCannotSend\<close>) and never look into what these do. The queue is a private attribute
  of the adapter, so no callback reaches it.
\<close>
record 'w state =
  stranded :: "buffer_list list"
  stderr :: "trace_msg list"
  submitted :: "buffer_list list"
  world :: 'w

text \<open>A zero-argument callback.\<close>
type_synonym 'w callback = "'w \<Rightarrow> (unit, 'w) res"

definition trace :: "trace_msg \<Rightarrow> 'w state \<Rightarrow> 'w state" where
  "trace m s = s\<lparr>stderr := stderr s @ [m]\<rparr>"

text \<open>Calling a callback from inside an adapter: it acts on the world and may raise.\<close>
definition call :: "'w callback \<Rightarrow> 'w state \<Rightarrow> (unit, 'w state) res" where
  "call cb s =
     (case cb (world s) of
        Ok _ w \<Rightarrow> Ok () (s\<lparr>world := w\<rparr>)
      | Exc e w \<Rightarrow> Exc e (s\<lparr>world := w\<rparr>))"

subsection \<open>\<^verbatim>\<open>EndpointOUTFile\<close>: the inbound adapter\<close>

text \<open>
  \<^verbatim>\<open>
  def onComplete(self, data, status):
      if data is None:
          trace('aio read completion error:', -status)
      else:
          trace('aio read completion received', len(data), 'bytes')
          self.__writer(data.tobytes())
  \<close>
\<close>
definition EndpointOUTFile_onComplete ::
  "(bytes \<Rightarrow> 'w callback) \<Rightarrow> bytes option \<Rightarrow> int \<Rightarrow> 'w state \<Rightarrow> (unit, 'w state) res" where
  "EndpointOUTFile_onComplete writer data status s =
     (case data of
        None \<Rightarrow> Ok () (trace (AioReadCompletionError (- status)) s)
      | Some d \<Rightarrow> call (writer d) (trace (AioReadCompletionReceived (length d)) s))"

subsection \<open>\<^verbatim>\<open>EndpointINFile\<close>: the outbound adapter\<close>

text \<open>
  \<^verbatim>\<open>
  def onComplete(self, buffer_list, user_data, status):
      if status < 0:
          trace('aio write completion error:', -status)
      else:
          trace('aio write completion sent', status, 'bytes')
      if status != -errno.ESHUTDOWN and self.__stranded_buffer_list_queue:
          buffer_list = self.__stranded_buffer_list_queue.popleft()
          if not self.__stranded_buffer_list_queue:
              trace('send queue has room, resume sending')
              self.__onCanSend()
          return buffer_list
      return None
  \<close>
  When \<^verbatim>\<open>onCanSend\<close> raises, the buffer list is already popped and is not returned.
\<close>
definition EndpointINFile_onComplete ::
  "'w callback \<Rightarrow> buffer_list \<Rightarrow> user_data \<Rightarrow> int \<Rightarrow> 'w state
     \<Rightarrow> (buffer_list option, 'w state) res" where
  "EndpointINFile_onComplete onCanSend buffer_list user_data status s =
     (let s1 = (if status < 0 then trace (AioWriteCompletionError (- status)) s
                else trace (AioWriteCompletionSent status) s)
      in if status \<noteq> - ESHUTDOWN \<and> stranded s1 \<noteq> [] then
           (case stranded s1 of
              b # rest \<Rightarrow>
                (let s2 = s1\<lparr>stranded := rest\<rparr>
                 in if rest = [] then
                      (case call onCanSend (trace SendQueueHasRoom s2) of
                         Ok _ s3 \<Rightarrow> Ok (Some b) s3
                       | Exc e s3 \<Rightarrow> Exc e s3)
                    else Ok (Some b) s2)
            | [] \<Rightarrow> Ok None s1)
         else Ok None s1)"

text \<open>
  \<^verbatim>\<open>
  def onSubmitEAGAIN(self, buffer_list, user_data):
      self.__stranded_buffer_list_queue.append(buffer_list)
      trace('send queue full, pause sending')
      self.__onCannotSend()
  \<close>
\<close>
definition EndpointINFile_onSubmitEAGAIN ::
  "'w callback \<Rightarrow> buffer_list \<Rightarrow> user_data \<Rightarrow> 'w state \<Rightarrow> (unit, 'w state) res" where
  "EndpointINFile_onSubmitEAGAIN onCannotSend buffer_list user_data s =
     call onCannotSend (trace SendQueueFull (s\<lparr>stranded := stranded s @ [buffer_list]\<rparr>))"

text \<open>\<^verbatim>\<open>def forgetStranded(self): self.__stranded_buffer_list_queue.clear()\<close>\<close>
definition forgetStranded :: "'w state \<Rightarrow> 'w state" where
  "forgetStranded s = s\<lparr>stranded := []\<rparr>"

subsection \<open>\<^verbatim>\<open>USBCat\<close>: the lifecycle callbacks\<close>

text \<open>
  Modelled from the spec: the methods \<^verbatim>\<open>onBind\<close>, \<^verbatim>\<open>onUnbind\<close>, \<^verbatim>\<open>onEnable\<close>,
  \<^verbatim>\<open>onDisable\<close>, \<^verbatim>\<open>onSuspend\<close> and \<^verbatim>\<open>onResume\<close> of the base class
  \<^verbatim>\<open>functionfs.Function\<close>, which every override calls through \<^verbatim>\<open>super()\<close>. The spec
  gives them no effect on the pending queue, on the registration of local input or on the
  local streams (on unbind they release the endpoint handles), and the base class cannot
  name the private attributes of the subclasses; so they leave this state as it is.
\<close>
definition Function_lifecycle :: "'w state \<Rightarrow> (unit, 'w state) res" where
  "Function_lifecycle s = Ok () s"

text \<open>\<^verbatim>\<open>def onBind(self): trace('onBind'); super(USBCat, self).onBind()\<close>\<close>
definition USBCat_onBind :: "'w state \<Rightarrow> (unit, 'w state) res" where
  "USBCat_onBind s = Function_lifecycle (trace TraceOnBind s)"

text \<open>
  \<^verbatim>\<open>
  def onUnbind(self):
      trace('onUnbind')
      self.in_ep.forgetStranded()
      self.__onCannotSend()
      super(USBCat, self).onUnbind()
  \<close>
  \<^verbatim>\<open>in_ep\<close> is the IN endpoint adapter, stored by \<^verbatim>\<open>__enter__\<close> before any event is
  processed.
\<close>
definition USBCat_onUnbind :: "'w callback \<Rightarrow> 'w state \<Rightarrow> (unit, 'w state) res" where
  "USBCat_onUnbind onCannotSend s =
     (case call onCannotSend (forgetStranded (trace TraceOnUnbind s)) of
        Ok _ s' \<Rightarrow> Function_lifecycle s'
      | Exc e s' \<Rightarrow> Exc e s')"

text \<open>
  \<^verbatim>\<open>
  def onEnable(self):
      trace('onEnable')
      super(USBCat, self).onEnable()
      self.__onCanSend()
  \<close>
\<close>
definition USBCat_onEnable :: "'w callback \<Rightarrow> 'w state \<Rightarrow> (unit, 'w state) res" where
  "USBCat_onEnable onCanSend s =
     (case Function_lifecycle (trace TraceOnEnable s) of
        Ok _ s' \<Rightarrow> call onCanSend s'
      | Exc e s' \<Rightarrow> Exc e s')"

text \<open>
  \<^verbatim>\<open>
  def onDisable(self):
      trace('onDisable')
      self.in_ep.forgetStranded()
      self.__onCannotSend()
      super(USBCat, self).onDisable()
  \<close>
\<close>
definition USBCat_onDisable :: "'w callback \<Rightarrow> 'w state \<Rightarrow> (unit, 'w state) res" where
  "USBCat_onDisable onCannotSend s =
     (case call onCannotSend (forgetStranded (trace TraceOnDisable s)) of
        Ok _ s' \<Rightarrow> Function_lifecycle s'
      | Exc e s' \<Rightarrow> Exc e s')"

text \<open>\<^verbatim>\<open>def onSuspend(self): trace('onSuspend'); super(USBCat, self).onSuspend()\<close>\<close>
definition USBCat_onSuspend :: "'w state \<Rightarrow> (unit, 'w state) res" where
  "USBCat_onSuspend s = Function_lifecycle (trace TraceOnSuspend s)"

text \<open>\<^verbatim>\<open>def onResume(self): trace('onResume'); super(USBCat, self).onResume()\<close>\<close>
definition USBCat_onResume :: "'w state \<Rightarrow> (unit, 'w state) res" where
  "USBCat_onResume s = Function_lifecycle (trace TraceOnResume s)"

subsection \<open>\<^verbatim>\<open>SubprocessCat\<close>: the callbacks\<close>

text \<open>
  What the callbacks of \<^verbatim>\<open>SubprocessCat\<close> act on: the interest list of its epoll object
  (\<^verbatim>\<open>self.__epoll\<close>, created by \<^verbatim>\<open>run\<close>), what was written to \<^verbatim>\<open>sys.stdout\<close>, and
  \<^verbatim>\<open>self.__out_encoding = getattr(sys.stdout, 'encoding', None)\<close>.
\<close>
record cat =
  epoll_set :: "fd set"
  stdout :: "pyvalue list"
  out_encoding :: "string option"

text \<open>
  \<^verbatim>\<open>select.epoll.register\<close> and \<^verbatim>\<open>select.epoll.unregister\<close> of the standard library, which
  are \<^verbatim>\<open>epoll_ctl(2)\<close> with \<^verbatim>\<open>EPOLL_CTL_ADD\<close> and \<^verbatim>\<open>EPOLL_CTL_DEL\<close>: adding a
  descriptor that is in the interest list fails with \<^verbatim>\<open>EEXIST\<close>, removing one that is not
  fails with \<^verbatim>\<open>ENOENT\<close> (the error \<^verbatim>\<open>__stopSender\<close> expects).
\<close>
definition epoll_register :: "fd \<Rightarrow> cat callback" where
  "epoll_register f w =
     (if f \<in> epoll_set w then Exc (OSError EEXIST) w
      else Ok () (w\<lparr>epoll_set := insert f (epoll_set w)\<rparr>))"

definition epoll_unregister :: "fd \<Rightarrow> cat callback" where
  "epoll_unregister f w =
     (if f \<in> epoll_set w then Ok () (w\<lparr>epoll_set := epoll_set w - {f}\<rparr>)
      else Exc (OSError ENOENT) w)"

text \<open>\<^verbatim>\<open>def __onCanSend(self): self.__epoll.register(sys.stdin, select.EPOLLIN)\<close>\<close>
definition SubprocessCat_onCanSend :: "cat callback" where
  "SubprocessCat_onCanSend w = epoll_register Stdin w"

text \<open>
  \<^verbatim>\<open>
  def __stopSender(self):
      try:
          self.__epoll.unregister(sys.stdin)
      except IOError as exc:
          if exc.errno != errno.ENOENT:
              raise
  \<close>
\<close>
definition SubprocessCat_stopSender :: "cat callback" where
  "SubprocessCat_stopSender w =
     (case epoll_unregister Stdin w of
        Ok u w' \<Rightarrow> Ok u w'
      | Exc e w' \<Rightarrow>
          (case e of
             OSError errno \<Rightarrow> if errno \<noteq> ENOENT then Exc e w' else Ok () w'
           | _ \<Rightarrow> Exc e w'))"

text \<open>
  \<^verbatim>\<open>
  def __writer(self, value):
      sys.stdout.write(
          value
          if self.__out_encoding is None else
          value.decode('utf-8', errors='replace')
      )
  \<close>
  The UTF-8 codec of the standard library is a parameter: \<open>decode\<close> stands for
  \<^verbatim>\<open>bytes.decode('utf-8', errors='replace')\<close>.
\<close>
definition SubprocessCat_writer :: "(bytes \<Rightarrow> unicode) \<Rightarrow> bytes \<Rightarrow> cat callback" where
  "SubprocessCat_writer decode val w =
     Ok () (w\<lparr>stdout := stdout w @
               [if out_encoding w = None then PyBytes val else PyStr (decode val)]\<rparr>)"

subsection \<open>The device-function framework, at its interface\<close>

text \<open>Whether the device takes a submission or is busy (\<^verbatim>\<open>EAGAIN\<close>): the device's choice, so an input.\<close>
datatype submit_outcome = Accepted | Rejected

text \<open>
  Modelled from the spec: \<^verbatim>\<open>submit\<close> of the base class \<^verbatim>\<open>functionfs.EndpointINFile\<close>, which
  hands a buffer list to the device. The submission is accepted, and completes later, or it is
  rejected because the device is busy, and then \<^verbatim>\<open>onSubmitEAGAIN\<close> is called with the
  buffer list.
\<close>
definition submit ::
  "'w callback \<Rightarrow> submit_outcome \<Rightarrow> buffer_list \<Rightarrow> user_data \<Rightarrow> 'w state \<Rightarrow> (unit, 'w state) res" where
  "submit onCannotSend outcome buffer_list user_data s =
     (case outcome of
        Accepted \<Rightarrow> Ok () (s\<lparr>submitted := submitted s @ [buffer_list]\<rparr>)
      | Rejected \<Rightarrow> EndpointINFile_onSubmitEAGAIN onCannotSend buffer_list user_data s)"

text \<open>
  Modelled from the spec: the delivery of a write completion by the base class
  \<^verbatim>\<open>functionfs.EndpointINFile\<close>: it calls \<^verbatim>\<open>onComplete\<close> and submits the buffer list that
  \<^verbatim>\<open>onComplete\<close> returns, if any ("the design reuses the completion callback's return
  value as the next submission").
\<close>
definition write_completion ::
  "'w callback \<Rightarrow> 'w callback \<Rightarrow> buffer_list \<Rightarrow> int \<Rightarrow> submit_outcome \<Rightarrow> 'w state
     \<Rightarrow> (unit, 'w state) res" where
  "write_completion onCanSend onCannotSend buffer_list status outcome s =
     (case EndpointINFile_onComplete onCanSend buffer_list () status s of
        Exc e s' \<Rightarrow> Exc e s'
      | Ok r s' \<Rightarrow>
          (case r of
             None \<Rightarrow> Ok () s'
           | Some next_list \<Rightarrow> submit onCannotSend outcome next_list () s'))"

text \<open>
  What one call of \<^verbatim>\<open>processEvents\<close> may deliver: a lifecycle notification, the completion
  of a write (with the device's answer to a resubmission), the completion of a read
  (\<^verbatim>\<open>data\<close> and \<^verbatim>\<open>status\<close> as \<^verbatim>\<open>onComplete\<close> gets them), or an interrupt request that
  arrives while events are processed.
\<close>
datatype fw_event =
    Bind | Unbind | Enable | Disable | Suspend | Resume
  | WriteCompletion buffer_list int submit_outcome
  | ReadCompletion "bytes option" int
  | Interrupted

definition deliver ::
  "(bytes \<Rightarrow> 'w callback) \<Rightarrow> 'w callback \<Rightarrow> 'w callback \<Rightarrow> fw_event \<Rightarrow> 'w state
     \<Rightarrow> (unit, 'w state) res" where
  "deliver writer onCanSend onCannotSend ev s =
     (case ev of
        Bind \<Rightarrow> USBCat_onBind s
      | Unbind \<Rightarrow> USBCat_onUnbind onCannotSend s
      | Enable \<Rightarrow> USBCat_onEnable onCanSend s
      | Disable \<Rightarrow> USBCat_onDisable onCannotSend s
      | Suspend \<Rightarrow> USBCat_onSuspend s
      | Resume \<Rightarrow> USBCat_onResume s
      | WriteCompletion buffer_list status outcome \<Rightarrow>
          write_completion onCanSend onCannotSend buffer_list status outcome s
      | ReadCompletion data status \<Rightarrow> EndpointOUTFile_onComplete writer data status s
      | Interrupted \<Rightarrow> Exc KeyboardInterrupt s)"

text \<open>
  Modelled from the spec: \<^verbatim>\<open>processEvents\<close> of the base class \<^verbatim>\<open>functionfs.Function\<close>,
  which "internally triggers the Inbound/Outbound Adapters' completion callbacks and Lifecycle
  Controller transitions", one after the other; an exception of a callback ends it.
\<close>
fun processEvents ::
  "(bytes \<Rightarrow> 'w callback) \<Rightarrow> 'w callback \<Rightarrow> 'w callback \<Rightarrow> fw_event list \<Rightarrow> 'w state
     \<Rightarrow> (unit, 'w state) res" where
  "processEvents writer onCanSend onCannotSend [] s = Ok () s"
| "processEvents writer onCanSend onCannotSend (ev # evs) s =
     (case deliver writer onCanSend onCannotSend ev s of
        Ok _ s' \<Rightarrow> processEvents writer onCanSend onCannotSend evs s'
      | Exc e s' \<Rightarrow> Exc e s')"

subsection \<open>\<^verbatim>\<open>SubprocessCat.run\<close>: the event loop\<close>

text \<open>Python's \<^verbatim>\<open>not value\<close> on what \<^verbatim>\<open>read\<close> returned.\<close>
definition falsy :: "pyvalue \<Rightarrow> bool" where
  "falsy v = (case v of PyNone \<Rightarrow> True | PyBytes b \<Rightarrow> b = [] | PyStr t \<Rightarrow> t = [])"

text \<open>
  \<^verbatim>\<open>
  def sender():
      value = sys.stdin.read(BUF_SIZE)
      if not value:
          raise EOFError
      encode = getattr(value, 'encode', None)
      if encode is not None:
          value = value.encode('utf-8', errors="replace")
      buf = bytearray(value)
      trace('queuing', len(buf), 'bytes')
      in_ep_submit([buf])
  \<close>
  \<open>val\<close> is what \<^verbatim>\<open>sys.stdin.read(BUF_SIZE)\<close> returned and \<open>outcome\<close> the device's answer to
  the submission; \<open>encode\<close> stands for \<^verbatim>\<open>str.encode('utf-8', errors="replace")\<close>. Of the
  three kinds of value only a \<^verbatim>\<open>str\<close> has an \<^verbatim>\<open>encode\<close> attribute.
\<close>
definition sender ::
  "(unicode \<Rightarrow> bytes) \<Rightarrow> 'w callback \<Rightarrow> pyvalue \<Rightarrow> submit_outcome \<Rightarrow> 'w state
     \<Rightarrow> (unit, 'w state) res" where
  "sender encode onCannotSend val outcome s =
     (if falsy val then Exc EOFError s
      else
        (let buf = (case val of PyStr t \<Rightarrow> encode t | PyBytes b \<Rightarrow> b | PyNone \<Rightarrow> [])
         in submit onCannotSend outcome [buf] () (trace (Queuing (length buf)) s)))"

text \<open>
  One entry of the list \<^verbatim>\<open>poll()\<close> returns, a descriptor with its event mask, together with
  what the handler of that descriptor then finds: for local input the chunk read and the
  device's answer to its submission, for the event descriptor the events to process.
\<close>
datatype ready =
    StdinReady nat pyvalue submit_outcome
  | EventfdReady nat "fw_event list"

text \<open>
  What one call of \<^verbatim>\<open>poll()\<close> does: it returns a list of ready descriptors, fails with an
  \<^verbatim>\<open>OSError\<close>, or is left by the \<^verbatim>\<open>KeyboardInterrupt\<close> of an interrupt request.
\<close>
datatype poll_outcome = PollEvents "ready list" | PollOSError int | PollKeyboardInterrupt

text \<open>
  \<^verbatim>\<open>
  event_dispatcher_dict = {
      sys.stdin.fileno(): sender,
      function.eventfd.fileno(): function.processEvents,
  }
  ...
      trace('epoll: fd %r got event %r' % (fd, event))
      event_dispatcher_dict[fd]()
  \<close>
  with the callbacks as \<^verbatim>\<open>__getFunction\<close> wires them:
  \<^verbatim>\<open>USBCat(path=path, writer=self.__writer, onCanSend=self.__onCanSend, onCannotSend=self.__stopSender)\<close>.
\<close>
definition event_dispatcher ::
  "(unicode \<Rightarrow> bytes) \<Rightarrow> (bytes \<Rightarrow> unicode) \<Rightarrow> ready \<Rightarrow> cat state \<Rightarrow> (unit, cat state) res" where
  "event_dispatcher encode decode r s =
     (case r of
        StdinReady event val outcome \<Rightarrow>
          sender encode SubprocessCat_stopSender val outcome (trace (EpollEvent Stdin event) s)
      | EventfdReady event evs \<Rightarrow>
          processEvents (SubprocessCat_writer decode) SubprocessCat_onCanSend
            SubprocessCat_stopSender evs (trace (EpollEvent Eventfd event) s))"

text \<open>\<^verbatim>\<open>for fd, event in event_list: ...\<close>\<close>
fun for_event_list ::
  "(unicode \<Rightarrow> bytes) \<Rightarrow> (bytes \<Rightarrow> unicode) \<Rightarrow> ready list \<Rightarrow> cat state \<Rightarrow> (unit, cat state) res" where
  "for_event_list encode decode [] s = Ok () s"
| "for_event_list encode decode (r # rs) s =
     (case event_dispatcher encode decode r s of
        Ok _ s' \<Rightarrow> for_event_list encode decode rs s'
      | Exc e s' \<Rightarrow> Exc e s')"

text \<open>
  One turn of \<^verbatim>\<open>while True\<close>:
  \<^verbatim>\<open>
  try:
      event_list = poll()
  except OSError as exc:
      if exc.errno != errno.EINTR:
          raise
  else:
      for fd, event in event_list:
          ...
  \<close>
\<close>
definition loop_body ::
  "(unicode \<Rightarrow> bytes) \<Rightarrow> (bytes \<Rightarrow> unicode) \<Rightarrow> poll_outcome \<Rightarrow> cat state \<Rightarrow> (unit, cat state) res" where
  "loop_body encode decode p s =
     (case p of
        PollOSError errno \<Rightarrow> if errno \<noteq> EINTR then Exc (OSError errno) s else Ok () s
      | PollKeyboardInterrupt \<Rightarrow> Exc KeyboardInterrupt s
      | PollEvents event_list \<Rightarrow> for_event_list encode decode event_list s)"

text \<open>
  How a run of the loop ends: \<^verbatim>\<open>run\<close> returns, an exception leaves \<^verbatim>\<open>run\<close>, or the loop
  is still blocked in \<^verbatim>\<open>poll()\<close> when the outcomes given are used up.
\<close>
datatype 's outcome = Returned 's | Propagated exn 's | Waiting 's

text \<open>\<^verbatim>\<open>while True\<close>, over the outcomes of the successive calls of \<^verbatim>\<open>poll()\<close>.\<close>
fun while_True ::
  "(unicode \<Rightarrow> bytes) \<Rightarrow> (bytes \<Rightarrow> unicode) \<Rightarrow> poll_outcome list \<Rightarrow> cat state \<Rightarrow> cat state outcome" where
  "while_True encode decode [] s = Waiting s"
| "while_True encode decode (p # ps) s =
     (case loop_body encode decode p s of
        Ok _ s' \<Rightarrow> while_True encode decode ps s'
      | Exc e s' \<Rightarrow> Propagated e s')"

text \<open>
  \<^verbatim>\<open>
  try:
      while True: ...
  except (KeyboardInterrupt, EOFError):
      pass
  \<close>
\<close>
definition event_loop ::
  "(unicode \<Rightarrow> bytes) \<Rightarrow> (bytes \<Rightarrow> unicode) \<Rightarrow> poll_outcome list \<Rightarrow> cat state \<Rightarrow> cat state outcome" where
  "event_loop encode decode ps s =
     (case while_True encode decode ps s of
        Propagated e s' \<Rightarrow>
          if e = KeyboardInterrupt \<or> e = EOFError then Returned s' else Propagated e s'
      | Returned s' \<Rightarrow> Returned s'
      | Waiting s' \<Rightarrow> Waiting s')"

text \<open>
  \<^verbatim>\<open>run\<close>: a new epoll object (\<^verbatim>\<open>select.epoll(3)\<close>), on which the event descriptor is
  registered (\<^verbatim>\<open>epoll.register(function.eventfd, select.EPOLLIN)\<close>), then the loop.
\<close>
definition SubprocessCat_run ::
  "(unicode \<Rightarrow> bytes) \<Rightarrow> (bytes \<Rightarrow> unicode) \<Rightarrow> poll_outcome list \<Rightarrow> cat state \<Rightarrow> cat state outcome" where
  "SubprocessCat_run encode decode ps s =
     (case call (epoll_register Eventfd) (s\<lparr>world := (world s)\<lparr>epoll_set := {}\<rparr>\<rparr>) of
        Exc e s' \<Rightarrow> Propagated e s'
      | Ok _ s' \<Rightarrow> event_loop encode decode ps s')"

subsection \<open>Observing the adapters\<close>

text \<open>
  The adapters take their callbacks at construction. To say what an adapter does with them,
  it is given callbacks that only record that they were called: the two backpressure signals,
  and a sink that keeps every payload it receives.
\<close>
datatype signal = CanSend | CannotSend

definition fire :: "signal \<Rightarrow> signal list callback" where
  "fire g w = Ok () (w @ [g])"

definition sink :: "bytes \<Rightarrow> bytes list callback" where
  "sink b w = Ok () (w @ [b])"

text \<open>
  A sequence of read completions, each given as the pair of \<^verbatim>\<open>data\<close> and \<^verbatim>\<open>status\<close> that
  \<^verbatim>\<open>onComplete\<close> of the inbound adapter is called with.
\<close>
fun out_run ::
  "(bytes \<Rightarrow> 'w callback) \<Rightarrow> (bytes option \<times> int) list \<Rightarrow> 'w state \<Rightarrow> (unit, 'w state) res" where
  "out_run writer [] s = Ok () s"
| "out_run writer (c # cs) s =
     (case EndpointOUTFile_onComplete writer (fst c) (snd c) s of
        Ok _ s' \<Rightarrow> out_run writer cs s'
      | Exc e s' \<Rightarrow> Exc e s')"

text \<open>The payloads of the completions that carry one, in completion order.\<close>
fun payloads :: "(bytes option \<times> int) list \<Rightarrow> bytes list" where
  "payloads [] = []"
| "payloads ((None, status) # cs) = payloads cs"
| "payloads ((Some d, status) # cs) = d # payloads cs"

text \<open>What happens to the outbound adapter: a submission is rejected, or a write completes.\<close>
datatype in_event = SubmitEAGAIN buffer_list | Complete buffer_list int

text \<open>The adapter's answer to one event: the buffer list to resubmit, if any.\<close>
definition in_step ::
  "'w callback \<Rightarrow> 'w callback \<Rightarrow> in_event \<Rightarrow> 'w state \<Rightarrow> (buffer_list option, 'w state) res" where
  "in_step onCanSend onCannotSend ev s =
     (case ev of
        SubmitEAGAIN buffer_list \<Rightarrow>
          (case EndpointINFile_onSubmitEAGAIN onCannotSend buffer_list () s of
             Ok _ s' \<Rightarrow> Ok None s'
           | Exc e s' \<Rightarrow> Exc e s')
      | Complete buffer_list status \<Rightarrow> EndpointINFile_onComplete onCanSend buffer_list () status s)"


text \<open>The buffer lists whose submission was rejected, in the order of the rejections.\<close>
fun rejected :: "in_event list \<Rightarrow> buffer_list list" where
  "rejected [] = []"
| "rejected (SubmitEAGAIN b # evs) = b # rejected evs"
| "rejected (Complete b status # evs) = rejected evs"

text \<open>The states the adapter goes through, one after each event.\<close>
fun in_states ::
  "'w callback \<Rightarrow> 'w callback \<Rightarrow> in_event list \<Rightarrow> 'w state \<Rightarrow> 'w state list" where
  "in_states onCanSend onCannotSend [] s = []"
| "in_states onCanSend onCannotSend (ev # evs) s =
     (case in_step onCanSend onCannotSend ev s of
        Exc e s' \<Rightarrow> [s']
      | Ok r s' \<Rightarrow> s' # in_states onCanSend onCannotSend evs s')"

text \<open>
  Along a sequence of states, how often the pending queue goes from empty to non-empty
  (\<open>fills\<close>) and from non-empty to empty (\<open>drains\<close>).
\<close>
fun fills :: "'w state list \<Rightarrow> nat" where
  "fills (a # b # ss) =
     (if stranded a = [] \<and> stranded b \<noteq> [] then 1 else 0) + fills (b # ss)"
| "fills ss = 0"

fun drains :: "'w state list \<Rightarrow> nat" where
  "drains (a # b # ss) =
     (if stranded a \<noteq> [] \<and> stranded b = [] then 1 else 0) + drains (b # ss)"
| "drains ss = 0"

text \<open>How often a signal was fired.\<close>
definition fired :: "signal \<Rightarrow> signal list state \<Rightarrow> nat" where
  "fired g s = length (filter (\<lambda>x. x = g) (world s))"

text \<open>
  Local input is masked when it is not in the interest list of the epoll object, and the
  adapter is consistent when a non-empty pending queue comes with masked local input.
\<close>
definition masked :: "cat state \<Rightarrow> bool" where
  "masked s = (Stdin \<notin> epoll_set (world s))"


text \<open>
  The program as it starts: the pending queue as \<^verbatim>\<open>EndpointINFile.__init__\<close> creates it
  (\<^verbatim>\<open>deque()\<close>), nothing printed, submitted or written yet, and a binary local output.
\<close>
definition initial :: "cat state" where
  "initial = \<lparr>stranded = [], stderr = [], submitted = [],
     world = \<lparr>epoll_set = {}, stdout = [], out_encoding = None\<rparr>\<rparr>"

text \<open>A newly constructed adapter with recording callbacks: nothing recorded yet.\<close>
definition unobserved :: "'a list state" where
  "unobserved = \<lparr>stranded = [], stderr = [], submitted = [], world = []\<rparr>"

section \<open>Properties\<close>

subsection \<open>Calling the callbacks\<close>

lemma stopSender_Ok:
  "SubprocessCat_stopSender w = Ok () (w\<lparr>epoll_set := epoll_set w - {Stdin}\<rparr>)"
  by (cases w) (simp add: SubprocessCat_stopSender_def epoll_unregister_def ENOENT_def)

lemma onCanSend_cases:
  "SubprocessCat_onCanSend w =
     (if Stdin \<in> epoll_set w then Exc (OSError EEXIST) w
      else Ok () (w\<lparr>epoll_set := insert Stdin (epoll_set w)\<rparr>))"
  by (simp add: SubprocessCat_onCanSend_def epoll_register_def)

lemma call_fire: "call (fire g) s = Ok () (s\<lparr>world := world s @ [g]\<rparr>)"
  by (simp add: call_def fire_def)

lemma call_sink: "call (sink d) s = Ok () (s\<lparr>world := world s @ [d]\<rparr>)"
  by (simp add: call_def sink_def)

lemma call_writer:
  "call (SubprocessCat_writer decode d) s =
     Ok () (s\<lparr>world := (world s)\<lparr>stdout := stdout (world s) @
        [if out_encoding (world s) = None then PyBytes d else PyStr (decode d)]\<rparr>\<rparr>)"
  by (simp add: call_def SubprocessCat_writer_def)

lemma onSubmitEAGAIN_wired:
  "EndpointINFile_onSubmitEAGAIN SubprocessCat_stopSender b u s =
     Ok () (s\<lparr>stranded := stranded s @ [b], stderr := stderr s @ [SendQueueFull],
              world := (world s)\<lparr>epoll_set := epoll_set (world s) - {Stdin}\<rparr>\<rparr>)"
  by (simp add: EndpointINFile_onSubmitEAGAIN_def call_def stopSender_Ok trace_def)

subsection \<open>The outbound adapter: order of resubmission\<close>










subsection \<open>The outbound adapter: when the signals are fired\<close>

lemma in_step_fire:
  "in_step (fire CanSend) (fire CannotSend) ev s =
     (case ev of
        SubmitEAGAIN b \<Rightarrow>
          Ok None (s\<lparr>stranded := stranded s @ [b], stderr := stderr s @ [SendQueueFull],
                     world := world s @ [CannotSend]\<rparr>)
      | Complete b status \<Rightarrow>
          (let t = (if status < 0 then AioWriteCompletionError (- status)
                    else AioWriteCompletionSent status)
           in if status \<noteq> - ESHUTDOWN \<and> stranded s \<noteq> [] then
                (if tl (stranded s) = [] then
                   Ok (Some (hd (stranded s)))
                     (s\<lparr>stranded := [], stderr := stderr s @ [t, SendQueueHasRoom],
                        world := world s @ [CanSend]\<rparr>)
                 else
                   Ok (Some (hd (stranded s)))
                     (s\<lparr>stranded := tl (stranded s), stderr := stderr s @ [t]\<rparr>))
              else Ok None (s\<lparr>stderr := stderr s @ [t]\<rparr>)))"
  by (cases ev; cases "stranded s")
     (simp_all add: in_step_def EndpointINFile_onSubmitEAGAIN_def EndpointINFile_onComplete_def
       call_fire trace_def Let_def)

lemma in_step_fire_counts:
  "\<exists>r s'. in_step (fire CanSend) (fire CannotSend) ev s = Ok r s'
     \<and> fired CannotSend s' = fired CannotSend s + length (rejected [ev])
     \<and> fired CanSend s' = fired CanSend s + drains [s, s']
     \<and> fills [s, s'] \<le> length (rejected [ev])"
  by (cases ev; cases "stranded s")
     (auto simp add: in_step_fire fired_def Let_def)

lemma fills_Cons2: "fills (a # b # ss) = fills [a, b] + fills (b # ss)"
  by simp

lemma drains_Cons2: "drains (a # b # ss) = drains [a, b] + drains (b # ss)"
  by simp

lemma in_states_fire:
  "fired CannotSend (last (s # in_states (fire CanSend) (fire CannotSend) evs s))
      = fired CannotSend s + length (rejected evs)
   \<and> fired CanSend (last (s # in_states (fire CanSend) (fire CannotSend) evs s))
      = fired CanSend s + drains (s # in_states (fire CanSend) (fire CannotSend) evs s)
   \<and> fills (s # in_states (fire CanSend) (fire CannotSend) evs s) \<le> length (rejected evs)
   \<and> length (in_states (fire CanSend) (fire CannotSend) evs s) = length evs"
proof (induction evs arbitrary: s)
  case Nil
  then show ?case by simp
next
  case (Cons ev evs)
  from in_step_fire_counts [of ev s] obtain r s1 where
    st: "in_step (fire CanSend) (fire CannotSend) ev s = Ok r s1"
    and a: "fired CannotSend s1 = fired CannotSend s + length (rejected [ev])"
    and b: "fired CanSend s1 = fired CanSend s + drains [s, s1]"
    and c: "fills [s, s1] \<le> length (rejected [ev])"
    by blast
  have rej: "length (rejected (ev # evs)) = length (rejected [ev]) + length (rejected evs)"
    by (cases ev) simp_all
  let ?ss = "in_states (fire CanSend) (fire CannotSend) evs s1"
  have ss: "in_states (fire CanSend) (fire CannotSend) (ev # evs) s = s1 # ?ss"
    using st by simp
  have l: "last (s # s1 # ?ss) = last (s1 # ?ss)" by simp
  from Cons.IH [of s1] a b c rej show ?case
    unfolding ss l fills_Cons2 [of s s1 ?ss] drains_Cons2 [of s s1 ?ss] by simp
qed

text \<open>
  C2, as stated, fails: \<^verbatim>\<open>onSubmitEAGAIN\<close> calls \<^verbatim>\<open>onCannotSend\<close> on every rejection.
  Two rejections in a row on a new adapter fill the queue once and fire "cannot send" twice.
\<close>
theorem cannot_send_fired_per_rejection:
  "fills (unobserved #
      in_states (fire CanSend) (fire CannotSend) [SubmitEAGAIN [[1]], SubmitEAGAIN [[2]]]
        unobserved) = 1
   \<and> fired CannotSend (last (unobserved #
      in_states (fire CanSend) (fire CannotSend) [SubmitEAGAIN [[1]], SubmitEAGAIN [[2]]]
        unobserved)) = 2"
  by (simp add: in_step_fire fired_def unobserved_def)

text \<open>
  C2, amended. Along any sequence of rejected submissions and write completions, seen with
  recording callbacks: no call raises; "can send" is fired exactly once for each time the
  pending queue goes from non-empty to empty; "cannot send" is fired exactly once for each
  rejected submission, whether the queue was empty or not, which is at least once for each
  time the queue goes from empty to non-empty.
\<close>
theorem signals_per_event:
  "length (in_states (fire CanSend) (fire CannotSend) evs s) = length evs
   \<and> fired CanSend (last (s # in_states (fire CanSend) (fire CannotSend) evs s))
      = fired CanSend s + drains (s # in_states (fire CanSend) (fire CannotSend) evs s)
   \<and> fired CannotSend (last (s # in_states (fire CanSend) (fire CannotSend) evs s))
      = fired CannotSend s + length (rejected evs)
   \<and> fills (s # in_states (fire CanSend) (fire CannotSend) evs s) \<le> length (rejected evs)"
  using in_states_fire [of s evs] by simp

subsection \<open>The outbound adapter: a completion with the shutdown status\<close>

text \<open>
  C3, as stated, fails in its last part: the status \<^verbatim>\<open>-ESHUTDOWN\<close> is negative, so the
  completion is traced as a write completion error like any other.
\<close>
theorem shutdown_completion_is_traced:
  "EndpointINFile_onComplete (fire CanSend) [[1, 2]] () (- ESHUTDOWN)
     \<lparr>stranded = [[[3]]], stderr = [], submitted = [], world = []\<rparr>
   = Ok None \<lparr>stranded = [[[3]]], stderr = [AioWriteCompletionError 108], submitted = [],
        world = []\<rparr>"
  by (simp add: EndpointINFile_onComplete_def ESHUTDOWN_def Let_def trace_def)

text \<open>
  C3, amended. A write completion with the shutdown status returns no buffer list to
  resubmit, whatever the pending queue holds; it calls no callback and leaves the queue
  as it is. Its only effect is the line \<^verbatim>\<open>aio write completion error: 108\<close> on the trace.
\<close>
theorem shutdown_completion_discarded:
  "EndpointINFile_onComplete onCanSend buffer_list user_data (- ESHUTDOWN) s
     = Ok None (trace (AioWriteCompletionError ESHUTDOWN) s)"
  by (simp add: EndpointINFile_onComplete_def ESHUTDOWN_def Let_def)

subsection \<open>Disable and unbind\<close>

text \<open>
  C4. From any state, \<^verbatim>\<open>onDisable\<close> returns, and so does \<^verbatim>\<open>onUnbind\<close>; after either the
  pending queue is empty and local input is masked.
\<close>
theorem disable_and_unbind_reset:
  "(\<exists>s'. USBCat_onDisable SubprocessCat_stopSender s = Ok () s' \<and> stranded s' = [] \<and> masked s')
 \<and> (\<exists>s'. USBCat_onUnbind SubprocessCat_stopSender s = Ok () s' \<and> stranded s' = [] \<and> masked s')"
  by (simp add: USBCat_onDisable_def USBCat_onUnbind_def call_def stopSender_Ok
      forgetStranded_def trace_def Function_lifecycle_def masked_def)

subsection \<open>The inbound adapter\<close>

lemma out_run_sink:
  "out_run sink cs s =
     Ok () (s\<lparr>stderr := stderr s @
                 map (\<lambda>c. case fst c of None \<Rightarrow> AioReadCompletionError (- snd c)
                                  | Some d \<Rightarrow> AioReadCompletionReceived (length d)) cs,
              world := world s @ payloads cs\<rparr>)"
proof (induction cs arbitrary: s)
  case Nil
  then show ?case by simp
next
  case (Cons c cs)
  obtain data status where c: "c = (data, status)" by (cases c)
  show ?case
    by (cases data)
       (simp_all add: c Cons.IH EndpointOUTFile_onComplete_def call_sink trace_def)
qed

lemma out_run_writer:
  "out_run (SubprocessCat_writer decode) cs s =
     Ok () (s\<lparr>stderr := stderr s @
                 map (\<lambda>c. case fst c of None \<Rightarrow> AioReadCompletionError (- snd c)
                                  | Some d \<Rightarrow> AioReadCompletionReceived (length d)) cs,
              world := (world s)\<lparr>stdout := stdout (world s) @
                 map (\<lambda>d. if out_encoding (world s) = None then PyBytes d else PyStr (decode d))
                   (payloads cs)\<rparr>\<rparr>)"
proof (induction cs arbitrary: s)
  case Nil
  then show ?case by simp
next
  case (Cons c cs)
  obtain data status where c: "c = (data, status)" by (cases c)
  show ?case
    by (cases data)
       (simp_all add: c Cons.IH EndpointOUTFile_onComplete_def call_writer trace_def)
qed

lemma payloads_Some: "payloads (map (\<lambda>c. (Some (fst c), snd c)) cs) = map fst cs"
  by (induction cs) auto

text \<open>
  C5. A sequence of read completions that all carry a payload, \<open>cs\<close> being the payloads
  with the statuses they come with: no call raises, and the sink is called with exactly
  these payloads, one call for each completion, in completion order. With the writer of
  \<^verbatim>\<open>SubprocessCat\<close> and a binary local output, what is written to local output is this
  same sequence of byte strings.
\<close>
theorem inbound_pass_through:
  assumes "out_encoding (world t) = None"
  shows "(\<exists>s'. out_run sink (map (\<lambda>c. (Some (fst c), snd c)) cs) s = Ok () s'
            \<and> world s' = world s @ map fst cs)
       \<and> (\<exists>t'. out_run (SubprocessCat_writer decode) (map (\<lambda>c. (Some (fst c), snd c)) cs) t
                 = Ok () t'
            \<and> stdout (world t') = stdout (world t) @ map (\<lambda>c. PyBytes (fst c)) cs)"
  using assms by (simp add: out_run_sink out_run_writer payloads_Some comp_def)

theorem inbound_pass_through_witness:
  "out_encoding (world initial) = None
   \<and> (\<exists>s'. out_run sink
          (map (\<lambda>c. (Some (fst c), snd c)) [([104, 105], 0), ([], 0), ([255 :: byte], 0 :: int)])
          (unobserved :: bytes list state) = Ok () s'
        \<and> world s' = world (unobserved :: bytes list state)
             @ map fst [([104, 105], 0), ([], 0), ([255 :: byte], 0 :: int)])
   \<and> (\<exists>t'. out_run (SubprocessCat_writer (\<lambda>b. map unat b))
          (map (\<lambda>c. (Some (fst c), snd c)) [([104, 105], 0), ([], 0), ([255 :: byte], 0 :: int)])
          initial = Ok () t'
        \<and> stdout (world t') = stdout (world initial)
             @ map (\<lambda>c. PyBytes (fst c)) [([104, 105], 0), ([], 0), ([255 :: byte], 0 :: int)])"
proof -
  have h: "out_encoding (world initial) = None"
    by (simp add: initial_def)
  from inbound_pass_through [OF h,
      where cs = "[([104, 105], 0), ([], 0), ([255 :: byte], 0 :: int)]"
        and s = "unobserved :: bytes list state" and decode = "\<lambda>b. map unat b"] h
  show ?thesis by blast
qed

text \<open>
  C6. A read completion that carries an error reaches \<^verbatim>\<open>onComplete\<close> with no data and its
  negative status. Whatever the status and whatever the sink: the call returns; the error is
  reported, that is \<^verbatim>\<open>stderr\<close> gets the one line \<^verbatim>\<open>aio read completion error: -status\<close>;
  the sink is not called, so what the sink acts on is as before, and so are the pending queue
  and the submissions. When a completion with payload \<open>d\<close> follows, the sink receives \<open>d\<close>
  as it is, and nothing for the failed completion, and \<^verbatim>\<open>stderr\<close> has the error line
  followed by the line of the received payload.
\<close>
theorem inbound_error_skips_sink:
  "(\<exists>s'. EndpointOUTFile_onComplete writer None status s = Ok () s'
       \<and> stderr s' = stderr s @ [AioReadCompletionError (- status)]
       \<and> world s' = world s \<and> stranded s' = stranded s \<and> submitted s' = submitted s)
 \<and> (\<exists>s'. out_run sink ((None, status) # (Some d, status') # cs) t = Ok () s'
       \<and> world s' = world t @ d # payloads cs
       \<and> stderr s' = stderr t @ AioReadCompletionError (- status)
            # AioReadCompletionReceived (length d)
            # map (\<lambda>c. case fst c of None \<Rightarrow> AioReadCompletionError (- snd c)
                              | Some d \<Rightarrow> AioReadCompletionReceived (length d)) cs)"
  by (simp add: out_run_sink EndpointOUTFile_onComplete_def trace_def del: out_run.simps)

subsection \<open>The event loop\<close>

lemma processEvents_append:
  "processEvents w c n (evs1 @ evs2) s =
     (case processEvents w c n evs1 s of
        Ok u s' \<Rightarrow> processEvents w c n evs2 s'
      | Exc e s' \<Rightarrow> Exc e s')"
  by (induction evs1 arbitrary: s) (auto split: res.splits)

lemma for_event_list_append:
  "for_event_list enc dec (rs1 @ rs2) s =
     (case for_event_list enc dec rs1 s of
        Ok u s' \<Rightarrow> for_event_list enc dec rs2 s'
      | Exc e s' \<Rightarrow> Exc e s')"
  by (induction rs1 arbitrary: s) (auto split: res.splits)

lemma while_True_append:
  "while_True enc dec (ps @ qs) s =
     (case while_True enc dec ps s of
        Waiting s' \<Rightarrow> while_True enc dec qs s'
      | Returned s' \<Rightarrow> Returned s'
      | Propagated e s' \<Rightarrow> Propagated e s')"
  by (induction ps arbitrary: s) (auto split: res.splits)

lemma event_loop_append:
  "event_loop enc dec (ps @ qs) s =
     (case event_loop enc dec ps s of
        Waiting s' \<Rightarrow> event_loop enc dec qs s'
      | Returned s' \<Rightarrow> Returned s'
      | Propagated e s' \<Rightarrow> Propagated e s')"
  by (simp add: event_loop_def while_True_append split: outcome.splits)

lemma run_event_loop:
  "SubprocessCat_run enc dec ps s =
     event_loop enc dec ps (s\<lparr>world := (world s)\<lparr>epoll_set := {Eventfd}\<rparr>\<rparr>)"
  by (simp add: SubprocessCat_run_def call_def epoll_register_def)

lemma run_append:
  "SubprocessCat_run enc dec (ps @ qs) s =
     (case SubprocessCat_run enc dec ps s of
        Waiting s' \<Rightarrow> event_loop enc dec qs s'
      | Returned s' \<Rightarrow> Returned s'
      | Propagated e s' \<Rightarrow> Propagated e s')"
  by (simp add: run_event_loop event_loop_append)

lemma event_loop_Cons:
  "event_loop enc dec (p # ps) s =
     (case loop_body enc dec p s of
        Ok u s' \<Rightarrow> event_loop enc dec ps s'
      | Exc e s' \<Rightarrow> if e = KeyboardInterrupt \<or> e = EOFError then Returned s' else Propagated e s')"
  by (simp add: event_loop_def split: res.splits)

lemma sender_eof: "falsy val \<Longrightarrow> sender enc n val outcome s = Exc EOFError s"
  by (simp add: sender_def)

text \<open>
  C7. Let the loop have run through the polls \<open>pre\<close> and be waiting in state \<open>s1\<close>.
  \<^item> If the next poll reports local input ready, after the handlers of \<open>before\<close> have
    returned in state \<open>s2\<close>, and the read yields nothing (\<^verbatim>\<open>b''\<close>, \<^verbatim>\<open>''\<close> or \<^verbatim>\<open>None\<close>), then
    \<^verbatim>\<open>run\<close> returns: no exception leaves it, nothing more is dispatched, and the trace gets
    the line of the dispatched event and no error.
  \<^item> If instead the next poll is left by an interrupt request, \<^verbatim>\<open>run\<close> returns in
    state \<open>s1\<close>.
  \<^item> If an interrupt request arrives while the events of the function are processed,
    after the events \<open>processed\<close> were delivered, \<^verbatim>\<open>run\<close> returns in the state these events left.
\<close>
theorem loop_ends_cleanly:
  assumes "SubprocessCat_run enc dec pre s = Waiting s1"
    and "for_event_list enc dec before s1 = Ok () s2"
    and "falsy val"
    and "processEvents (SubprocessCat_writer dec) SubprocessCat_onCanSend SubprocessCat_stopSender
           processed (trace (EpollEvent Eventfd event) s2) = Ok () s3"
  shows "SubprocessCat_run enc dec
           (pre @ PollEvents (before @ StdinReady event val outcome # after) # rest) s
          = Returned (trace (EpollEvent Stdin event) s2)
       \<and> SubprocessCat_run enc dec (pre @ PollKeyboardInterrupt # rest) s = Returned s1
       \<and> SubprocessCat_run enc dec
           (pre @ PollEvents (before @ EventfdReady event (processed @ Interrupted # unprocessed) # after)
              # rest) s
          = Returned s3"
  using assms
  by (simp add: run_append event_loop_Cons loop_body_def for_event_list_append
      event_dispatcher_def sender_eof processEvents_append deliver_def)

theorem loop_ends_cleanly_witness:
  "SubprocessCat_run (\<lambda>t. map word_of_nat t) (\<lambda>b. map unat b)
      [PollEvents [EventfdReady 1 [Bind, Enable]], PollOSError 4] initial
     = Waiting \<lparr>stranded = [], stderr = [EpollEvent Eventfd 1, TraceOnBind, TraceOnEnable],
         submitted = [],
         world = \<lparr>epoll_set = {Stdin, Eventfd}, stdout = [], out_encoding = None\<rparr>\<rparr>
   \<and> falsy (PyBytes [])
   \<and> SubprocessCat_run (\<lambda>t. map word_of_nat t) (\<lambda>b. map unat b)
      ([PollEvents [EventfdReady 1 [Bind, Enable]], PollOSError 4]
        @ PollEvents ([StdinReady 1 (PyBytes [104, 105]) Accepted]
            @ StdinReady 1 (PyBytes []) Accepted # [EventfdReady 1 [Disable]])
        # [PollEvents []]) initial
     = Returned \<lparr>stranded = [],
         stderr = [EpollEvent Eventfd 1, TraceOnBind, TraceOnEnable, EpollEvent Stdin 1,
           Queuing 2, EpollEvent Stdin 1],
         submitted = [[[104, 105]]],
         world = \<lparr>epoll_set = {Stdin, Eventfd}, stdout = [], out_encoding = None\<rparr>\<rparr>
   \<and> SubprocessCat_run (\<lambda>t. map word_of_nat t) (\<lambda>b. map unat b)
      ([PollEvents [EventfdReady 1 [Bind, Enable]], PollOSError 4]
        @ PollKeyboardInterrupt # [PollEvents []]) initial
     = Returned \<lparr>stranded = [], stderr = [EpollEvent Eventfd 1, TraceOnBind, TraceOnEnable],
         submitted = [],
         world = \<lparr>epoll_set = {Stdin, Eventfd}, stdout = [], out_encoding = None\<rparr>\<rparr>
   \<and> SubprocessCat_run (\<lambda>t. map word_of_nat t) (\<lambda>b. map unat b)
      ([PollEvents [EventfdReady 1 [Bind, Enable]], PollOSError 4]
        @ PollEvents ([StdinReady 1 (PyBytes [104, 105]) Accepted]
            @ EventfdReady 1 ([ReadCompletion (Some [111, 107]) 0] @ Interrupted # [Disable])
              # [EventfdReady 1 [Disable]])
        # [PollEvents []]) initial
     = Returned \<lparr>stranded = [],
         stderr = [EpollEvent Eventfd 1, TraceOnBind, TraceOnEnable, EpollEvent Stdin 1,
           Queuing 2, EpollEvent Eventfd 1, AioReadCompletionReceived 2],
         submitted = [[[104, 105]]],
         world = \<lparr>epoll_set = {Stdin, Eventfd}, stdout = [PyBytes [111, 107]],
           out_encoding = None\<rparr>\<rparr>"
proof -
  let ?enc = "\<lambda>t :: unicode. map word_of_nat t :: bytes"
  let ?dec = "\<lambda>b :: bytes. map unat b"
  let ?s1 = "\<lparr>stranded = [], stderr = [EpollEvent Eventfd 1, TraceOnBind, TraceOnEnable],
         submitted = [],
         world = \<lparr>epoll_set = {Stdin, Eventfd}, stdout = [], out_encoding = None\<rparr>\<rparr>"
  let ?s2 = "\<lparr>stranded = [],
         stderr = [EpollEvent Eventfd 1, TraceOnBind, TraceOnEnable, EpollEvent Stdin 1,
           Queuing 2],
         submitted = [[[104, 105]]],
         world = \<lparr>epoll_set = {Stdin, Eventfd}, stdout = [], out_encoding = None\<rparr>\<rparr>"
  let ?s3 = "\<lparr>stranded = [],
         stderr = [EpollEvent Eventfd 1, TraceOnBind, TraceOnEnable, EpollEvent Stdin 1,
           Queuing 2, EpollEvent Eventfd 1, AioReadCompletionReceived 2],
         submitted = [[[104, 105]]],
         world = \<lparr>epoll_set = {Stdin, Eventfd}, stdout = [PyBytes [111, 107]],
           out_encoding = None\<rparr>\<rparr>"
  have h1: "SubprocessCat_run ?enc ?dec
      [PollEvents [EventfdReady 1 [Bind, Enable]], PollOSError 4] initial = Waiting ?s1"
    by (simp add: run_event_loop event_loop_Cons loop_body_def event_dispatcher_def deliver_def
        USBCat_onBind_def USBCat_onEnable_def Function_lifecycle_def trace_def call_def
        onCanSend_cases initial_def EINTR_def event_loop_def)
  have h2: "for_event_list ?enc ?dec [StdinReady 1 (PyBytes [104, 105]) Accepted] ?s1 = Ok () ?s2"
    by (simp add: event_dispatcher_def sender_def falsy_def submit_def trace_def)
  have h3: "falsy (PyBytes [])"
    by (simp add: falsy_def)
  have h4: "processEvents (SubprocessCat_writer ?dec) SubprocessCat_onCanSend
      SubprocessCat_stopSender [ReadCompletion (Some [111, 107]) 0]
      (trace (EpollEvent Eventfd 1) ?s2) = Ok () ?s3"
    by (simp add: deliver_def EndpointOUTFile_onComplete_def call_writer trace_def)
  from loop_ends_cleanly [OF h1 h2 h3 h4, where outcome = Accepted
      and after = "[EventfdReady 1 [Disable]]" and rest = "[PollEvents []]"
      and unprocessed = "[Disable]"] h1 h3
  show ?thesis by (simp add: trace_def)
qed

text \<open>
  C8. A poll that fails with \<^verbatim>\<open>EINTR\<close> changes nothing: the run is the run without that
  poll, so the wait is simply done again. A poll that fails with any other errno ends
  \<^verbatim>\<open>run\<close> with that \<^verbatim>\<open>OSError\<close>, in the state the loop was waiting in: neither handler
  of \<^verbatim>\<open>run\<close> catches it.
\<close>
theorem poll_interruption_retried:
  assumes "SubprocessCat_run enc dec pre s = Waiting s1"
    and "errno \<noteq> EINTR"
  shows "SubprocessCat_run enc dec (pre @ PollOSError EINTR # rest) s
           = SubprocessCat_run enc dec (pre @ rest) s
       \<and> SubprocessCat_run enc dec (pre @ PollOSError errno # rest) s
           = Propagated (OSError errno) s1"
  using assms
  by (simp add: run_append event_loop_Cons loop_body_def split: outcome.splits)

theorem poll_interruption_retried_witness:
  "SubprocessCat_run (\<lambda>t. map word_of_nat t) (\<lambda>b. map unat b)
      [PollEvents [EventfdReady 1 [Bind, Enable]]] initial
     = Waiting \<lparr>stranded = [], stderr = [EpollEvent Eventfd 1, TraceOnBind, TraceOnEnable],
         submitted = [],
         world = \<lparr>epoll_set = {Stdin, Eventfd}, stdout = [], out_encoding = None\<rparr>\<rparr>
   \<and> (5 :: int) \<noteq> EINTR
   \<and> SubprocessCat_run (\<lambda>t. map word_of_nat t) (\<lambda>b. map unat b)
        ([PollEvents [EventfdReady 1 [Bind, Enable]]] @ PollOSError EINTR # [PollEvents []])
        initial
     = SubprocessCat_run (\<lambda>t. map word_of_nat t) (\<lambda>b. map unat b)
        ([PollEvents [EventfdReady 1 [Bind, Enable]]] @ [PollEvents []]) initial
   \<and> SubprocessCat_run (\<lambda>t. map word_of_nat t) (\<lambda>b. map unat b)
        ([PollEvents [EventfdReady 1 [Bind, Enable]]] @ PollOSError 5 # [PollEvents []]) initial
     = Propagated (OSError 5)
         \<lparr>stranded = [], stderr = [EpollEvent Eventfd 1, TraceOnBind, TraceOnEnable],
           submitted = [],
           world = \<lparr>epoll_set = {Stdin, Eventfd}, stdout = [], out_encoding = None\<rparr>\<rparr>"
proof -
  let ?enc = "\<lambda>t :: unicode. map word_of_nat t :: bytes"
  let ?dec = "\<lambda>b :: bytes. map unat b"
  let ?s1 = "\<lparr>stranded = [], stderr = [EpollEvent Eventfd 1, TraceOnBind, TraceOnEnable],
         submitted = [],
         world = \<lparr>epoll_set = {Stdin, Eventfd}, stdout = [], out_encoding = None\<rparr>\<rparr>"
  have h1: "SubprocessCat_run ?enc ?dec [PollEvents [EventfdReady 1 [Bind, Enable]]] initial
      = Waiting ?s1"
    by (simp add: run_event_loop event_loop_Cons loop_body_def event_dispatcher_def deliver_def
        USBCat_onBind_def USBCat_onEnable_def Function_lifecycle_def trace_def call_def
        onCanSend_cases initial_def event_loop_def)
  have h2: "(5 :: int) \<noteq> EINTR"
    by (simp add: EINTR_def)
  from poll_interruption_retried [OF h1 h2, where rest = "[PollEvents []]"] h1 h2
  show ?thesis by blast
qed

subsection \<open>The backpressure callbacks\<close>

text \<open>
  The two callbacks are not alike. \<^verbatim>\<open>__stopSender\<close> expects to be called when local input
  is masked already and guards that case (\<^verbatim>\<open>ENOENT\<close>): it always returns, and a second
  call changes nothing.
\<close>
lemma stopSender_idempotent:
  "SubprocessCat_stopSender w = Ok () (w\<lparr>epoll_set := epoll_set w - {Stdin}\<rparr>)
   \<and> SubprocessCat_stopSender (w\<lparr>epoll_set := epoll_set w - {Stdin}\<rparr>)
       = Ok () (w\<lparr>epoll_set := epoll_set w - {Stdin}\<rparr>)"
  by (simp add: stopSender_Ok)

text \<open>
  C9. "Cannot send" called twice returns twice and leaves local input masked. "Can send"
  has no such guard: \<^verbatim>\<open>__onCanSend\<close> called twice registers local input and then raises
  \<^verbatim>\<open>OSError\<close> with \<^verbatim>\<open>EEXIST\<close>. The second call is reached when the function is enabled
  twice with no disable between: the exception leaves \<^verbatim>\<open>run\<close>. It is reached as well when
  the function is enabled while a buffer list is pending: the completion that empties the
  queue raises, and the buffer list it popped is neither pending nor submitted.
\<close>
theorem can_send_twice_raises:
  "SubprocessCat_stopSender \<lparr>epoll_set = {Stdin, Eventfd}, stdout = [], out_encoding = None\<rparr>
     = Ok () \<lparr>epoll_set = {Eventfd}, stdout = [], out_encoding = None\<rparr>
   \<and> SubprocessCat_stopSender \<lparr>epoll_set = {Eventfd}, stdout = [], out_encoding = None\<rparr>
     = Ok () \<lparr>epoll_set = {Eventfd}, stdout = [], out_encoding = None\<rparr>
   \<and> SubprocessCat_onCanSend \<lparr>epoll_set = {Eventfd}, stdout = [], out_encoding = None\<rparr>
     = Ok () \<lparr>epoll_set = {Stdin, Eventfd}, stdout = [], out_encoding = None\<rparr>
   \<and> SubprocessCat_onCanSend \<lparr>epoll_set = {Stdin, Eventfd}, stdout = [], out_encoding = None\<rparr>
     = Exc (OSError 17) \<lparr>epoll_set = {Stdin, Eventfd}, stdout = [], out_encoding = None\<rparr>
   \<and> SubprocessCat_run (\<lambda>t. map word_of_nat t) (\<lambda>b. map unat b)
        [PollEvents [EventfdReady 1 [Enable, Enable]], PollEvents []] initial
     = Propagated (OSError 17)
        \<lparr>stranded = [], stderr = [EpollEvent Eventfd 1, TraceOnEnable, TraceOnEnable],
           submitted = [],
           world = \<lparr>epoll_set = {Stdin, Eventfd}, stdout = [], out_encoding = None\<rparr>\<rparr>
   \<and> SubprocessCat_run (\<lambda>t. map word_of_nat t) (\<lambda>b. map unat b)
        [PollEvents [EventfdReady 1 [Enable]],
         PollEvents [StdinReady 1 (PyBytes [1]) Rejected],
         PollEvents [EventfdReady 1 [Enable]],
         PollEvents [EventfdReady 1 [WriteCompletion [] 1 Accepted]]] initial
     = Propagated (OSError 17)
        \<lparr>stranded = [],
           stderr = [EpollEvent Eventfd 1, TraceOnEnable, EpollEvent Stdin 1, Queuing 1,
             SendQueueFull, EpollEvent Eventfd 1, TraceOnEnable, EpollEvent Eventfd 1,
             AioWriteCompletionSent 1, SendQueueHasRoom],
           submitted = [],
           world = \<lparr>epoll_set = {Stdin, Eventfd}, stdout = [], out_encoding = None\<rparr>\<rparr>"
  by (simp add: stopSender_Ok onCanSend_cases EEXIST_def run_event_loop event_loop_Cons
      loop_body_def event_dispatcher_def deliver_def USBCat_onEnable_def Function_lifecycle_def
      trace_def call_def initial_def sender_def falsy_def submit_def onSubmitEAGAIN_wired
      write_completion_def EndpointINFile_onComplete_def Let_def ESHUTDOWN_def)

subsection \<open>Text-mode streams\<close>

text \<open>
  C10. A chunk read from local input as a string is submitted UTF-8-encoded, a chunk read
  as bytes is submitted as it is; this is the buffer that is accepted by the device or,
  when the device is busy, put on the pending queue. A payload received from the host is
  written to local output as it is when local output has no encoding, and UTF-8-decoded, as
  a string, when it has one. So the bytes pass unchanged in both directions exactly when
  both streams are binary.
\<close>
theorem text_mode_transcodes:
  "(\<exists>s'. event_dispatcher enc dec (StdinReady event (PyStr (c # t)) Accepted) s = Ok () s'
        \<and> submitted s' = submitted s @ [[enc (c # t)]] \<and> stranded s' = stranded s)
 \<and> (\<exists>s'. event_dispatcher enc dec (StdinReady event (PyStr (c # t)) Rejected) s = Ok () s'
        \<and> stranded s' = stranded s @ [[enc (c # t)]] \<and> submitted s' = submitted s)
 \<and> (\<exists>s'. event_dispatcher enc dec (StdinReady event (PyBytes (x # b)) Accepted) s = Ok () s'
        \<and> submitted s' = submitted s @ [[x # b]] \<and> stranded s' = stranded s)
 \<and> (\<exists>s'. event_dispatcher enc dec (StdinReady event (PyBytes (x # b)) Rejected) s = Ok () s'
        \<and> stranded s' = stranded s @ [[x # b]] \<and> submitted s' = submitted s)
 \<and> (\<exists>s'. event_dispatcher enc dec (EventfdReady event [ReadCompletion (Some d) status])
             (s\<lparr>world := (world s)\<lparr>out_encoding := None\<rparr>\<rparr>) = Ok () s'
        \<and> stdout (world s') = stdout (world s) @ [PyBytes d])
 \<and> (\<exists>s'. event_dispatcher enc dec (EventfdReady event [ReadCompletion (Some d) status])
             (s\<lparr>world := (world s)\<lparr>out_encoding := Some encoding\<rparr>\<rparr>) = Ok () s'
        \<and> stdout (world s') = stdout (world s) @ [PyStr (dec d)])"
  by (simp add: event_dispatcher_def sender_def falsy_def submit_def onSubmitEAGAIN_wired
      trace_def deliver_def EndpointOUTFile_onComplete_def call_writer Let_def)

end
